theory Spec2Isabelle
  imports Main "HOL-Library.Sublist" "HOL-Library.AList"
begin

section \<open>Python strings\<close>

text \<open>
  A Python \<open>str\<close> is modelled as a \<open>string\<close>; a \<open>char\<close> stands for a code point
  below 256. \<open>is_digit\<close> is the class \<open>\d\<close> of \<open>re\<close> and \<open>is_space\<close> the class
  \<open>\s\<close>, which is also what \<open>str.strip()\<close> removes: tab to carriage return, the four
  separators 28 to 31, the blank, and the two Latin-1 spaces 133 and 160.
\<close>

definition is_digit :: "char \<Rightarrow> bool" where
  "is_digit c = (c \<in> set ''0123456789'')"

definition is_space :: "char \<Rightarrow> bool" where
  "is_space c = (of_char c \<in> set [9, 10, 11, 12, 13, 28, 29, 30, 31, 32, 133, 160 :: nat])"

definition py_strip :: "string \<Rightarrow> string" where
  "py_strip s = rev (dropWhile is_space (rev (dropWhile is_space s)))"

text \<open>\<open>s.find(sub)\<close>: the lowest index at which \<open>sub\<close> occurs, \<open>-1\<close> when it does not.\<close>

fun py_find :: "string \<Rightarrow> string \<Rightarrow> int" where
  "py_find [] sub = (if sub = [] then 0 else - 1)"
| "py_find (c # cs) sub =
     (if prefix sub (c # cs) then 0
      else (let i = py_find cs sub in if i = - 1 then - 1 else i + 1))"

text \<open>\<open>sub in s\<close>.\<close>

definition py_in :: "string \<Rightarrow> string \<Rightarrow> bool" where
  "py_in sub s = (py_find s sub \<noteq> - 1)"

text \<open>
  Slices \<open>s[a:b]\<close>, \<open>s[:b]\<close> and \<open>s[a:]\<close>: a negative bound counts from the end, and
  every bound is clamped to the string.
\<close>

definition slice_index :: "nat \<Rightarrow> int \<Rightarrow> nat" where
  "slice_index n i = (if i < 0 then nat (max 0 (i + int n)) else min (nat i) n)"

definition py_slice :: "string \<Rightarrow> int \<Rightarrow> int \<Rightarrow> string" where
  "py_slice s a b = drop (slice_index (length s) a) (take (slice_index (length s) b) s)"

definition py_slice_to :: "string \<Rightarrow> int \<Rightarrow> string" where
  "py_slice_to s b = take (slice_index (length s) b) s"

definition py_slice_from :: "string \<Rightarrow> int \<Rightarrow> string" where
  "py_slice_from s a = drop (slice_index (length s) a) s"

text \<open>
  \<open>s.replace(old, new)\<close>: every occurrence of \<open>old\<close>, found from the left without
  overlap. \<open>skip\<close> counts the characters of an occurrence still to be passed over.
\<close>

fun replace_from :: "nat \<Rightarrow> string \<Rightarrow> string \<Rightarrow> string \<Rightarrow> string" where
  "replace_from skip old new [] = []"
| "replace_from skip old new (c # cs) =
     (if 0 < skip then replace_from (skip - 1) old new cs
      else if prefix old (c # cs) then new @ replace_from (length old - 1) old new cs
      else c # replace_from 0 old new cs)"

definition py_replace :: "string \<Rightarrow> string \<Rightarrow> string \<Rightarrow> string" where
  "py_replace s old new =
     (if old = [] then new @ concat (map (\<lambda>c. c # new) s) else replace_from 0 old new s)"

datatype py_error =
    IndexError | ValueError | TypeError | AttributeError
  | FileNotFoundError | FileExistsError | IsADirectoryError | NotADirectoryError
  | SameFileError | TooManyLinks

text \<open>The exceptions that \<open>except OSError\<close> catches.\<close>

definition is_OSError :: "py_error \<Rightarrow> bool" where
  "is_OSError e = (e \<in> set [FileNotFoundError, FileExistsError, IsADirectoryError,
                             NotADirectoryError, SameFileError, TooManyLinks])"

text \<open>
  \<open>int(s)\<close> for a string of decimal digits, which is all that the converter passes to
  it (the groups \<open>\d{1,2}\<close> of a match), and \<open>str(n)\<close>.
\<close>

definition digit_value :: "char \<Rightarrow> int" where
  "digit_value c = int (of_char c) - 48"

definition py_int :: "string \<Rightarrow> py_error + int" where
  "py_int s =
     (if s \<noteq> [] \<and> list_all is_digit s
      then Inr (foldl (\<lambda>acc c. 10 * acc + digit_value c) 0 s)
      else Inl ValueError)"

fun str_nat :: "nat \<Rightarrow> string" where
  "str_nat n =
     (if n < 10 then [''0123456789'' ! n]
      else str_nat (n div 10) @ [''0123456789'' ! (n mod 10)])"

declare str_nat.simps [simp del]

definition py_str :: "int \<Rightarrow> string" where
  "py_str i = (if i < 0 then CHR ''-'' # str_nat (nat (- i)) else str_nat (nat i))"

text \<open>
  \<open>xs[i]\<close>: a negative index counts from the end; outside the list the read raises
  \<open>IndexError\<close>.
\<close>

definition py_index :: "'a list \<Rightarrow> int \<Rightarrow> py_error + 'a" where
  "py_index xs i =
     (let j = (if i < 0 then i + int (length xs) else i)
      in if 0 \<le> j \<and> j < int (length xs) then Inr (xs ! nat j) else Inl IndexError)"

section \<open>Regular expressions\<close>

text \<open>
  The patterns of the converter use literals, repeated character classes, optional
  parts, alternatives and groups. \<open>Rep cls lo hi\<close> is a greedy repetition of a class,
  at least \<open>lo\<close> and at most \<open>hi\<close> times (\<open>None\<close>: unbounded). The matcher is the
  backtracking one of \<open>re\<close>: \<open>k\<close> is what remains to be matched, and a repetition or an
  alternative gives way when \<open>k\<close> fails. Groups are recorded in the order they close.
\<close>

datatype regex =
    Lit string
  | Rep "char \<Rightarrow> bool" nat "nat option"
  | Seq regex regex
  | Alt regex regex
  | Grp regex
  | Eps

fun rep_match :: "(char \<Rightarrow> bool) \<Rightarrow> nat \<Rightarrow> nat option \<Rightarrow> string \<Rightarrow> (string \<Rightarrow> 'a option) \<Rightarrow> 'a option" where
  "rep_match cls lo hi [] k = (if lo = 0 then k [] else None)"
| "rep_match cls lo hi (c # cs) k =
     (if cls c \<and> hi \<noteq> Some 0 then
        (case rep_match cls (lo - 1) (map_option (\<lambda>h. h - 1) hi) cs k of
           Some r \<Rightarrow> Some r
         | None \<Rightarrow> if lo = 0 then k (c # cs) else None)
      else if lo = 0 then k (c # cs) else None)"

fun re_match :: "regex \<Rightarrow> string \<Rightarrow> string list \<Rightarrow> (string \<Rightarrow> string list \<Rightarrow> 'a option) \<Rightarrow> 'a option" where
  "re_match (Lit l) s g k = (if prefix l s then k (drop (length l) s) g else None)"
| "re_match (Rep cls lo hi) s g k = rep_match cls lo hi s (\<lambda>s'. k s' g)"
| "re_match (Seq a b) s g k = re_match a s g (\<lambda>s' g'. re_match b s' g' k)"
| "re_match (Alt a b) s g k =
     (case re_match a s g k of Some r \<Rightarrow> Some r | None \<Rightarrow> re_match b s g k)"
| "re_match (Grp a) s g k =
     re_match a s g (\<lambda>s' g'. k s' (g' @ [take (length s - length s') s]))"
| "re_match Eps s g k = k s g"

text \<open>A match at the start of \<open>s\<close>: what follows the match, and the groups.\<close>

definition match_at :: "regex \<Rightarrow> string \<Rightarrow> (string \<times> string list) option" where
  "match_at r s = re_match r s [] (\<lambda>s' g. Some (s', g))"

text \<open>\<open>re.search(r, s)\<close>: the leftmost match; the result is its \<open>groups()\<close>.\<close>

fun re_search :: "regex \<Rightarrow> string \<Rightarrow> string list option" where
  "re_search r [] = map_option snd (match_at r [])"
| "re_search r (c # cs) =
     (case match_at r (c # cs) of Some m \<Rightarrow> Some (snd m) | None \<Rightarrow> re_search r cs)"

text \<open>
  \<open>re.sub(r, "", s)\<close> and \<open>re.findall(r, s)\<close> for a pattern with one group: the matches
  are taken from the left without overlap; \<open>skip\<close> counts the characters of a match
  still to be passed over.
\<close>

fun sub_from :: "nat \<Rightarrow> regex \<Rightarrow> string \<Rightarrow> string" where
  "sub_from skip r [] = []"
| "sub_from skip r (c # cs) =
     (if 0 < skip then sub_from (skip - 1) r cs
      else (case match_at r (c # cs) of
              None \<Rightarrow> c # sub_from 0 r cs
            | Some m \<Rightarrow>
                (if length (fst m) = length (c # cs) then c # sub_from 0 r cs
                 else sub_from (length cs - length (fst m)) r cs)))"

definition re_sub_empty :: "regex \<Rightarrow> string \<Rightarrow> string" where
  "re_sub_empty r s = sub_from 0 r s"

fun findall_from :: "nat \<Rightarrow> regex \<Rightarrow> string \<Rightarrow> string list" where
  "findall_from skip r [] = []"
| "findall_from skip r (c # cs) =
     (if 0 < skip then findall_from (skip - 1) r cs
      else (case match_at r (c # cs) of
              None \<Rightarrow> findall_from 0 r cs
            | Some m \<Rightarrow> take 1 (snd m) @ findall_from (length cs - length (fst m)) r cs))"

definition re_findall :: "regex \<Rightarrow> string \<Rightarrow> string list" where
  "re_findall r s = findall_from 0 r s"

text \<open>The pattern \<^verbatim>\<open>(\d{4})-(\d{1,2})-(\d{1,2})\<close> of \<open>get_date_info\<close>.\<close>

definition date_re :: regex where
  "date_re =
     Seq (Grp (Rep is_digit 4 (Some 4)))
       (Seq (Lit ''-'')
         (Seq (Grp (Rep is_digit 1 (Some 2)))
           (Seq (Lit ''-'') (Grp (Rep is_digit 1 (Some 2))))))"

text \<open>
  The two patterns that \<open>extract_content\<close> removes,
  \<^verbatim>\<open>\\href\{run:[^}]+\}\{[^}]+\}\s*\<close> and \<^verbatim>\<open>\\section\{\s*\}\s*\<close>.
\<close>

definition not_rbrace :: "char \<Rightarrow> bool" where
  "not_rbrace c = (c \<noteq> CHR ''}'')"

definition href_re :: regex where
  "href_re =
     Seq (Lit (CHR 0x5C # ''href{run:''))
       (Seq (Rep not_rbrace 1 None)
         (Seq (Lit ''}{'')
           (Seq (Rep not_rbrace 1 None)
             (Seq (Lit ''}'') (Rep is_space 0 None)))))"

definition section_re :: regex where
  "section_re =
     Seq (Lit (CHR 0x5C # ''section{''))
       (Seq (Rep is_space 0 None)
         (Seq (Lit ''}'') (Rep is_space 0 None)))"

text \<open>
  The four patterns of \<open>_find_asset_references\<close>, in the order of the source:
  \<^verbatim>\<open>\\includegraphics(?:\[[^\]]*\])?\{([^}]+)\}\<close>,
  \<^verbatim>\<open>\\input\{([^}]*\.(?:png|jpg|jpeg|pdf|eps|svg))\}\<close>,
  \<^verbatim>\<open>\\epsfig\{file=([^,}]+)\<close> and \<^verbatim>\<open>\\psfig\{file=([^,}]+)\<close>.
\<close>

definition not_rbracket :: "char \<Rightarrow> bool" where
  "not_rbracket c = (c \<noteq> CHR '']'')"

definition not_comma_rbrace :: "char \<Rightarrow> bool" where
  "not_comma_rbrace c = (c \<noteq> CHR '','' \<and> c \<noteq> CHR ''}'')"

definition asset_patterns :: "regex list" where
  "asset_patterns =
     [Seq (Lit (CHR 0x5C # ''includegraphics''))
        (Seq (Alt (Seq (Lit ''['') (Seq (Rep not_rbracket 0 None) (Lit '']''))) Eps)
          (Seq (Lit ''{'') (Seq (Grp (Rep not_rbrace 1 None)) (Lit ''}'')))),
      Seq (Lit (CHR 0x5C # ''input{''))
        (Seq (Grp (Seq (Rep not_rbrace 0 None)
                    (Seq (Lit ''.'')
                      (Alt (Lit ''png'') (Alt (Lit ''jpg'') (Alt (Lit ''jpeg'')
                        (Alt (Lit ''pdf'') (Alt (Lit ''eps'') (Lit ''svg'')))))))))
          (Lit ''}'')),
      Seq (Lit (CHR 0x5C # ''epsfig{file='')) (Grp (Rep not_comma_rbrace 1 None)),
      Seq (Lit (CHR 0x5C # ''psfig{file='')) (Grp (Rep not_comma_rbrace 1 None))]"

section \<open>Paths\<close>

text \<open>
  A \<open>pathlib\<close> path: whether it is anchored at the root, and its components.
  \<open>Path(s)\<close> splits \<open>s\<close> at the slashes and drops the empty components and the
  components \<open>.\<close>; the components \<open>..\<close> stay. A path that starts with exactly two
  slashes, which POSIX sets apart, is read as one that starts with one.
\<close>

datatype path = Path (is_absolute: bool) (tail: "string list")

fun split_slash :: "string \<Rightarrow> string \<Rightarrow> string list" where
  "split_slash acc [] = [acc]"
| "split_slash acc (c # cs) =
     (if c = CHR ''/'' then acc # split_slash [] cs else split_slash (acc @ [c]) cs)"

definition path_of :: "string \<Rightarrow> path" where
  "path_of s =
     Path (prefix ''/'' s) (filter (\<lambda>x. x \<noteq> [] \<and> x \<noteq> ''.'') (split_slash [] s))"

text \<open>\<open>p / s\<close>: an absolute \<open>s\<close> replaces \<open>p\<close>.\<close>

definition joinpath :: "path \<Rightarrow> string \<Rightarrow> path" where
  "joinpath p s =
     (let q = path_of s
      in if is_absolute q then q else Path (is_absolute p) (tail p @ tail q))"

text \<open>\<open>p.parent\<close>: the root and the empty path are their own parent.\<close>

definition parent :: "path \<Rightarrow> path" where
  "parent p = (if tail p = [] then p else Path (is_absolute p) (butlast (tail p)))"

definition name :: "path \<Rightarrow> string" where
  "name p = (if tail p = [] then [] else last (tail p))"

text \<open>
  \<open>p.stem\<close>: the name up to its last dot, when that dot is neither the first nor the
  last character of the name.
\<close>

fun rfind_dot :: "string \<Rightarrow> nat option" where
  "rfind_dot [] = None"
| "rfind_dot (c # cs) =
     (case rfind_dot cs of
        Some i \<Rightarrow> Some (Suc i)
      | None \<Rightarrow> if c = CHR ''.'' then Some 0 else None)"

definition stem :: "path \<Rightarrow> string" where
  "stem p =
     (case rfind_dot (name p) of
        Some i \<Rightarrow> if 0 < i \<and> i < length (name p) - 1 then take i (name p) else name p
      | None \<Rightarrow> name p)"

section \<open>The file system, the clock and the console\<close>

text \<open>
  The file system is a finite listing of paths with what they hold: a file with its
  text, a directory, or a symbolic link with the path it leads to. Paths are compared
  as \<open>pathlib\<close> compares them, component by component; the root and the empty path
  always are directories. \<open>resolve\<close> follows the symbolic link at the end of a path,
  giving up after 40 links as the kernel does; a link in the middle of a path is not
  followed. Permissions and failing devices are not modelled: an operation fails only
  for what the listing holds.
\<close>

datatype node = File string | Dir | Symlink path

type_synonym filesystem = "(path \<times> node) list"

definition lookup :: "filesystem \<Rightarrow> path \<Rightarrow> node option" where
  "lookup fs p = (if tail p = [] then Some Dir else map_of fs p)"

fun resolve :: "nat \<Rightarrow> filesystem \<Rightarrow> path \<Rightarrow> path option" where
  "resolve 0 fs p = (case lookup fs p of Some (Symlink t) \<Rightarrow> None | _ \<Rightarrow> Some p)"
| "resolve (Suc n) fs p = (case lookup fs p of Some (Symlink t) \<Rightarrow> resolve n fs t | _ \<Rightarrow> Some p)"

definition stat :: "filesystem \<Rightarrow> path \<Rightarrow> node option" where
  "stat fs p = (case resolve 40 fs p of None \<Rightarrow> None | Some q \<Rightarrow> lookup fs q)"

definition path_exists :: "filesystem \<Rightarrow> path \<Rightarrow> bool" where
  "path_exists fs p = (stat fs p \<noteq> None)"

definition is_dir :: "filesystem \<Rightarrow> path \<Rightarrow> bool" where
  "is_dir fs p = (stat fs p = Some Dir)"

definition is_symlink :: "filesystem \<Rightarrow> path \<Rightarrow> bool" where
  "is_symlink fs p = (case lookup fs p of Some (Symlink t) \<Rightarrow> True | _ \<Rightarrow> False)"

text \<open>\<open>open(p, "r")\<close> followed by \<open>read()\<close>.\<close>

definition read_text :: "filesystem \<Rightarrow> path \<Rightarrow> py_error + string" where
  "read_text fs p =
     (case stat fs p of
        Some (File c) \<Rightarrow> Inr c
      | Some Dir \<Rightarrow> Inl IsADirectoryError
      | _ \<Rightarrow> Inl FileNotFoundError)"

text \<open>\<open>open(p, "w")\<close> followed by \<open>write(c)\<close>: the directory of the file must exist.\<close>

definition write_text :: "filesystem \<Rightarrow> path \<Rightarrow> string \<Rightarrow> py_error + filesystem" where
  "write_text fs p c =
     (case resolve 40 fs p of
        None \<Rightarrow> Inl TooManyLinks
      | Some q \<Rightarrow>
          (if lookup fs q = Some Dir then Inl IsADirectoryError
           else (case stat fs (parent q) of
                   None \<Rightarrow> Inl FileNotFoundError
                 | Some Dir \<Rightarrow> Inr (AList.update q (File c) fs)
                 | _ \<Rightarrow> Inl NotADirectoryError)))"

text \<open>\<open>os.mkdir(p)\<close>, and \<open>p.mkdir(parents=True, exist_ok=True)\<close> as \<open>pathlib\<close> writes it.\<close>

definition os_mkdir :: "filesystem \<Rightarrow> path \<Rightarrow> py_error + filesystem" where
  "os_mkdir fs p =
     (if tail p = [] then Inl FileExistsError
      else (case stat fs (parent p) of
              None \<Rightarrow> Inl FileNotFoundError
            | Some Dir \<Rightarrow>
                (if lookup fs p \<noteq> None then Inl FileExistsError
                 else Inr (AList.update p Dir fs))
            | _ \<Rightarrow> Inl NotADirectoryError))"

function mkdir_parents :: "filesystem \<Rightarrow> path \<Rightarrow> py_error + filesystem" where
  "mkdir_parents fs p =
     (case os_mkdir fs p of
        Inr fs' \<Rightarrow> Inr fs'
      | Inl e \<Rightarrow>
          (if e = FileNotFoundError then
             (if tail p = [] then Inl e
              else (case mkdir_parents fs (Path (is_absolute p) (butlast (tail p))) of
                      Inl e' \<Rightarrow> Inl e'
                    | Inr fs' \<Rightarrow>
                        (case os_mkdir fs' p of
                           Inr fs'' \<Rightarrow> Inr fs''
                         | Inl e'' \<Rightarrow>
                             (if e'' = FileNotFoundError \<or> \<not> is_dir fs' p then Inl e''
                              else Inr fs'))))
           else if is_dir fs p then Inr fs else Inl e))"
  by pat_completeness auto
termination
  by (relation "measure (\<lambda>(fs, p). length (tail p))") auto

declare mkdir_parents.simps [simp del]

text \<open>\<open>p.unlink()\<close> and \<open>p.symlink_to(target)\<close>.\<close>

definition unlink :: "filesystem \<Rightarrow> path \<Rightarrow> py_error + filesystem" where
  "unlink fs p =
     (case lookup fs p of
        None \<Rightarrow> Inl FileNotFoundError
      | Some Dir \<Rightarrow> Inl IsADirectoryError
      | _ \<Rightarrow> Inr (AList.delete p fs))"

definition symlink_to :: "filesystem \<Rightarrow> path \<Rightarrow> path \<Rightarrow> py_error + filesystem" where
  "symlink_to fs p target =
     (if lookup fs p \<noteq> None then Inl FileExistsError
      else (case stat fs (parent p) of
              None \<Rightarrow> Inl FileNotFoundError
            | Some Dir \<Rightarrow> Inr (AList.update p (Symlink target) fs)
            | _ \<Rightarrow> Inl NotADirectoryError))"

text \<open>
  \<open>os.path.relpath(p, start)\<close> spells \<open>p\<close> as seen from \<open>start\<close>. The link that
  \<open>copy_assets\<close> makes lies in \<open>start\<close>, so the spelling leads to \<open>p\<close>, which is what the
  link's node records.
\<close>

definition relpath :: "path \<Rightarrow> path \<Rightarrow> path" where
  "relpath p start = p"

text \<open>
  \<open>shutil.copy2(src, dst)\<close>: into \<open>dst\<close> when it is a directory; a file is not copied
  onto itself. Time stamps and permissions are not modelled.
\<close>

definition copy2 :: "filesystem \<Rightarrow> path \<Rightarrow> path \<Rightarrow> py_error + filesystem" where
  "copy2 fs src dst =
     (let dst' = (if is_dir fs dst then joinpath dst (name src) else dst)
      in if path_exists fs src \<and> path_exists fs dst' \<and> resolve 40 fs src = resolve 40 fs dst'
         then Inl SameFileError
         else (case read_text fs src of
                 Inl e \<Rightarrow> Inl e
               | Inr c \<Rightarrow> write_text fs dst' c))"


text \<open>
  What the program acts on: the file system, the date that \<open>datetime.now()\<close> gives,
  and the lines printed so far. A line is recorded with its level and with what it
  reports (which call of \<open>log\<close> printed it, and the values it shows), not letter by
  letter.
\<close>

record date =
  year_of :: int
  month_of :: int
  day_of :: int

datatype level = INFO | WARNING | ERROR

datatype message =
    ExtractedContent string
  | NoDocumentEnvironment string
  | ErrorExtracting string py_error
  | NoAssetReferences
  | FoundAssetReferences nat
  | CreatedAssetsSymlink path
  | NoAssetsDirectory
  | FailedAssetsSymlink py_error
  | FallbackCopiedAsset string
  | CopiedAsset string
  | AssetNotFound string
  | ErrorFindingAssets py_error
  | CreatingSymlinks string
  | CopyingAssets string
  | Converted string
  | ErrorConverting string py_error
  | InputFolderMissing path
  | FoundTexFiles nat path
  | NoTexFiles
  | OutputFolder path
  | SummaryHeader
  | SummarySuccessful nat
  | SummaryFailed nat
  | SummaryOutput path

record world =
  files :: filesystem
  now :: date
  printed :: "(level \<times> message) list"

section \<open>The converter\<close>

text \<open>
  \<open>Tex2TexConverter\<close> holds what its constructor loaded: the verbosity, the value of
  \<open>config.yaml\<close> (a mapping whose values are strings or something else, or not a
  mapping at all) and the text of the entry template.
\<close>

datatype yaml = YStr string | YOther

datatype config_value = ConfigDict "(string \<times> yaml) list" | ConfigOther

record converter =
  verbose :: bool
  config :: config_value
  template :: string

text \<open>A raised exception ends the computation; \<open>then_do\<close> runs \<open>f\<close> on a result.\<close>

definition then_do :: "py_error + 'a \<Rightarrow> ('a \<Rightarrow> py_error + 'b) \<Rightarrow> py_error + 'b" where
  "then_do x f = (case x of Inl e \<Rightarrow> Inl e | Inr v \<Rightarrow> f v)"

definition log :: "converter \<Rightarrow> world \<Rightarrow> message \<Rightarrow> level \<Rightarrow> world" where
  "log self w msg lvl =
     (if verbose self \<or> lvl \<in> set [ERROR, WARNING]
      then w\<lparr>printed := printed w @ [(lvl, msg)]\<rparr> else w)"


subsection \<open>extract_content\<close>

definition begin_document :: string where
  "begin_document = CHR 0x5C # ''begin{document}''"

definition end_document :: string where
  "end_document = CHR 0x5C # ''end{document}''"

text \<open>
  What \<open>extract_content\<close> computes from the text it has read (lines 81 to 100 of the
  source, the printing apart): \<open>None\<close> when a marker is missing. \<open>between_markers\<close> is
  the stripped slice of lines 89 to 91, before the two removals.
\<close>

definition between_markers :: "string \<Rightarrow> string" where
  "between_markers content =
     (let doc_start = py_find content begin_document;
          doc_end = py_find content end_document
      in py_strip (py_slice content (doc_start + int (length begin_document)) doc_end))"

definition document_body :: "string \<Rightarrow> string option" where
  "document_body content =
     (let doc_start = py_find content begin_document;
          doc_end = py_find content end_document
      in if doc_start = - 1 \<or> doc_end = - 1 then None
         else (let doc_content = between_markers content;
                   doc_content = re_sub_empty href_re doc_content;
                   doc_content = re_sub_empty section_re doc_content
               in Some doc_content))"

definition extract_content :: "converter \<Rightarrow> world \<Rightarrow> path \<Rightarrow> world \<times> string option" where
  "extract_content self w tex_file =
     (case read_text (files w) tex_file of
        Inl e \<Rightarrow> (log self w (ErrorExtracting (name tex_file) e) ERROR, None)
      | Inr content \<Rightarrow>
          (case document_body content of
             None \<Rightarrow> (log self w (NoDocumentEnvironment (name tex_file)) WARNING, None)
           | Some doc_content \<Rightarrow>
               (log self w (ExtractedContent (name tex_file)) INFO, Some doc_content)))"

subsection \<open>get_date_info\<close>

record date_info =
  year :: string
  month :: string
  day :: string
  month_name :: string
  day_number :: string

definition month_names :: "string list" where
  "month_names =
     [''January'', ''February'', ''March'', ''April'', ''May'', ''June'', ''July'',
      ''August'', ''September'', ''October'', ''November'', ''December'']"

definition get_date_info :: "world \<Rightarrow> path \<Rightarrow> py_error + date_info" where
  "get_date_info w tex_file =
     (let filename = stem tex_file
      in then_do
           (case re_search date_re filename of
              Some groups \<Rightarrow>
                then_do (py_int (groups ! 1)) (\<lambda>month_num.
                then_do (py_int (groups ! 2)) (\<lambda>day_num.
                  Inr (groups ! 0, month_num, day_num)))
            | None \<Rightarrow> Inr (py_str (year_of (now w)), month_of (now w), day_of (now w)))
           (\<lambda>(year, month_num, day_num).
              then_do (py_index month_names (month_num - 1)) (\<lambda>month_name.
                Inr \<lparr>year = year, month = py_str month_num, day = py_str day_num,
                     month_name = month_name, day_number = py_str day_num\<rparr>)))"

subsection \<open>inject_personal_info\<close>

definition config_get :: "config_value \<Rightarrow> string \<Rightarrow> string \<Rightarrow> py_error + yaml" where
  "config_get cfg key dflt =
     (case cfg of
        ConfigOther \<Rightarrow> Inl AttributeError
      | ConfigDict d \<Rightarrow> (case map_of d key of None \<Rightarrow> Inr (YStr dflt) | Some v \<Rightarrow> Inr v))"

text \<open>The loop over \<open>replacements\<close>: \<open>str.replace\<close> refuses a value that is not a string.\<close>

fun replace_all :: "string \<Rightarrow> (string \<times> yaml) list \<Rightarrow> py_error + string" where
  "replace_all result [] = Inr result"
| "replace_all result ((placeholder, v) # rest) =
     (case v of
        YStr x \<Rightarrow> replace_all (py_replace result placeholder x) rest
      | YOther \<Rightarrow> Inl TypeError)"

text \<open>The template after the loop over \<open>replacements\<close> (lines 152 to 174).\<close>

definition substitute_metadata :: "converter \<Rightarrow> world \<Rightarrow> string \<Rightarrow> path \<Rightarrow> py_error + string" where
  "substitute_metadata self w templ tex_file =
     then_do (get_date_info w tex_file) (\<lambda>date_info.
     then_do (config_get (config self) ''author'' ''Unknown Author'') (\<lambda>author.
     then_do (config_get (config self) ''institution'' ''Unknown Institution'') (\<lambda>institution.
     then_do (config_get (config self) ''diary_title'' ''Research Diary'') (\<lambda>diary_title.
       replace_all templ
         [(''<YEAR>'', YStr (year date_info)),
          (''<MONTH>'', YStr (month date_info)),
          (''<DAY>'', YStr (day date_info)),
          (''<MONTH_NAME>'', YStr (month_name date_info)),
          (''<DAY_NUMBER>'', YStr (day_number date_info)),
          (''<AUTHOR>'', author),
          (''<INSTITUTION>'', institution),
          (''<DIARY_TITLE>'', diary_title),
          (''<FILENAME>'', YStr (name tex_file))]))))"

definition inject_personal_info :: "converter \<Rightarrow> world \<Rightarrow> string \<Rightarrow> path \<Rightarrow> string \<Rightarrow> py_error + string" where
  "inject_personal_info self w templ tex_file folder_name =
     then_do (substitute_metadata self w templ tex_file) (\<lambda>result.
       if py_in ''<TAGS>'' result
       then Inr (py_replace result ''<TAGS>'' folder_name)
       else Inr (py_replace result ''%<TAGs>: <TAGS>'' (''%<TAGs>: '' @ folder_name)))"

subsection \<open>Assets\<close>

text \<open>
  \<open>_find_asset_references\<close> collects the matches in a set and returns
  \<open>list(asset_refs)\<close>, whose order Python leaves open; the model takes the matches
  pattern by pattern and lists each reference once.
\<close>

definition find_asset_references :: "converter \<Rightarrow> world \<Rightarrow> path \<Rightarrow> world \<times> string list" where
  "find_asset_references self w tex_file =
     (case read_text (files w) tex_file of
        Inl e \<Rightarrow> (log self w (ErrorFindingAssets e) ERROR, [])
      | Inr content \<Rightarrow>
          (w, remdups (concat (map (\<lambda>pattern. re_findall pattern content) asset_patterns))))"

definition possible_paths :: "string \<Rightarrow> path \<Rightarrow> path list" where
  "possible_paths asset_path tex_file =
     [joinpath (parent tex_file) asset_path,
      joinpath (joinpath (joinpath (parent tex_file) ''assets'') ''figures'') asset_path,
      joinpath (joinpath (parent tex_file) ''figures'') asset_path,
      joinpath (joinpath (joinpath (parent (parent tex_file)) ''assets'') ''figures'') asset_path]"

definition resolve_asset_path :: "filesystem \<Rightarrow> string \<Rightarrow> path \<Rightarrow> path option" where
  "resolve_asset_path fs asset_path tex_file =
     find (path_exists fs) (possible_paths asset_path tex_file)"

text \<open>
  The two loops of \<open>copy_assets\<close> over the references. They differ in what they
  print: the loop of the copy mode (\<open>fallback = False\<close>) warns about a reference that
  does not resolve, the loop of the \<open>except OSError\<close> branch passes it over in silence.
\<close>

fun copy_each :: "converter \<Rightarrow> bool \<Rightarrow> path \<Rightarrow> path \<Rightarrow> world \<Rightarrow> path list \<Rightarrow> string list
    \<Rightarrow> world \<times> (py_error + path list)" where
  "copy_each self fallback tex_file output_dir w copied_files [] = (w, Inr copied_files)"
| "copy_each self fallback tex_file output_dir w copied_files (asset_path # rest) =
     (case resolve_asset_path (files w) asset_path tex_file of
        Some source_file \<Rightarrow>
          (if path_exists (files w) source_file then
             (let dest_file = joinpath output_dir asset_path
              in case mkdir_parents (files w) (parent dest_file) of
                   Inl e \<Rightarrow> (w, Inl e)
                 | Inr fs1 \<Rightarrow>
                     (case copy2 fs1 source_file dest_file of
                        Inl e \<Rightarrow> (w\<lparr>files := fs1\<rparr>, Inl e)
                      | Inr fs2 \<Rightarrow>
                          copy_each self fallback tex_file output_dir
                            (log self (w\<lparr>files := fs2\<rparr>)
                               (if fallback then FallbackCopiedAsset asset_path
                                else CopiedAsset asset_path) INFO)
                            (copied_files @ [dest_file]) rest))
           else copy_each self fallback tex_file output_dir
                  (if fallback then w else log self w (AssetNotFound asset_path) WARNING)
                  copied_files rest)
      | None \<Rightarrow>
          copy_each self fallback tex_file output_dir
            (if fallback then w else log self w (AssetNotFound asset_path) WARNING)
            copied_files rest)"

text \<open>The \<open>while\<close> loop that walks up from the directory of the document.\<close>

function find_assets_root :: "filesystem \<Rightarrow> path \<Rightarrow> path" where
  "find_assets_root fs root_dir =
     (if parent root_dir \<noteq> root_dir then
        (if path_exists fs (joinpath root_dir ''assets'') then root_dir
         else find_assets_root fs (parent root_dir))
      else root_dir)"
  by pat_completeness auto
termination
  by (relation "measure (\<lambda>(fs, p). length (tail p))") (auto simp: parent_def split: if_splits)

declare find_assets_root.simps [simp del]

text \<open>The body of the \<open>try\<close> of the symlink mode (lines 203 to 222).\<close>

definition link_assets :: "converter \<Rightarrow> world \<Rightarrow> path \<Rightarrow> path \<Rightarrow> world \<times> (py_error + path list)" where
  "link_assets self w tex_file output_dir =
     (let root_dir = find_assets_root (files w) (parent tex_file);
          original_assets_dir = joinpath root_dir ''assets''
      in if path_exists (files w) original_assets_dir then
           (let assets_symlink = joinpath output_dir ''assets''
            in case (if path_exists (files w) assets_symlink \<or> is_symlink (files w) assets_symlink
                     then unlink (files w) assets_symlink else Inr (files w)) of
                 Inl e \<Rightarrow> (w, Inl e)
               | Inr fs1 \<Rightarrow>
                   (let relative_assets = relpath original_assets_dir output_dir
                    in case symlink_to fs1 assets_symlink relative_assets of
                         Inl e \<Rightarrow> (w\<lparr>files := fs1\<rparr>, Inl e)
                       | Inr fs2 \<Rightarrow>
                           (log self (w\<lparr>files := fs2\<rparr>) (CreatedAssetsSymlink relative_assets) INFO,
                            Inr [assets_symlink])))
         else (log self w NoAssetsDirectory WARNING, Inr []))"

definition copy_assets :: "converter \<Rightarrow> world \<Rightarrow> path \<Rightarrow> path \<Rightarrow> bool \<Rightarrow> world \<times> (py_error + path list)" where
  "copy_assets self w tex_file output_dir use_symlinks =
     (case find_asset_references self w tex_file of
        (w1, asset_refs) \<Rightarrow>
          (if asset_refs = [] then (log self w1 NoAssetReferences INFO, Inr [])
           else (let w2 = log self w1 (FoundAssetReferences (length asset_refs)) INFO
                 in if use_symlinks then
                      (case link_assets self w2 tex_file output_dir of
                         (w3, Inr copied_files) \<Rightarrow> (w3, Inr copied_files)
                       | (w3, Inl e) \<Rightarrow>
                           (if is_OSError e
                            then copy_each self True tex_file output_dir
                                   (log self w3 (FailedAssetsSymlink e) WARNING) [] asset_refs
                            else (w3, Inl e)))
                    else copy_each self False tex_file output_dir w2 [] asset_refs)))"

subsection \<open>convert_file and convert_folder\<close>

definition bibliographystyle :: string where
  "bibliographystyle = CHR 0x5C # ''bibliographystyle''"

text \<open>The insertion of the extracted content into the template (lines 314 to 323).\<close>

definition splice_content :: "string \<Rightarrow> string \<Rightarrow> string" where
  "splice_content templ content =
     (if py_in bibliographystyle templ then
        (let bib_start = py_find templ bibliographystyle
         in py_slice_to templ bib_start @ content @ [CHR 0x0A, CHR 0x0A]
              @ py_slice_from templ bib_start)
      else
        (let doc_end = py_find templ end_document
         in py_slice_to templ doc_end @ content @ [CHR 0x0A, CHR 0x0A]
              @ py_slice_from templ doc_end))"

text \<open>
  The body of the \<open>try\<close> of \<open>convert_file\<close>: what it raises is a value, given
  together with the world as it was when the exception left the body.
\<close>

definition convert_file_body :: "converter \<Rightarrow> world \<Rightarrow> path \<Rightarrow> path \<Rightarrow> string \<Rightarrow> bool
    \<Rightarrow> world \<times> (py_error + bool)" where
  "convert_file_body self w tex_file output_dir folder_name use_symlinks =
     (case extract_content self w tex_file of
        (w1, None) \<Rightarrow> (w1, Inr False)
      | (w1, Some content) \<Rightarrow>
          (case inject_personal_info self w1 (template self) tex_file folder_name of
             Inl e \<Rightarrow> (w1, Inl e)
           | Inr templ \<Rightarrow>
               (case get_date_info w1 tex_file of
                  Inl e \<Rightarrow> (w1, Inl e)
                | Inr title_date \<Rightarrow>
                    (let new_content = splice_content templ content;
                         output_file = joinpath output_dir (name tex_file)
                     in case write_text (files w1) output_file new_content of
                          Inl e \<Rightarrow> (w1, Inl e)
                        | Inr fs2 \<Rightarrow>
                            (let w2 = log self (w1\<lparr>files := fs2\<rparr>)
                                        (if use_symlinks then CreatingSymlinks (name tex_file)
                                         else CopyingAssets (name tex_file)) INFO
                             in case copy_assets self w2 tex_file output_dir use_symlinks of
                                  (w3, Inl e) \<Rightarrow> (w3, Inl e)
                                | (w3, Inr copied_files) \<Rightarrow>
                                    (log self w3 (Converted (name tex_file)) INFO, Inr True))))))"

definition convert_file :: "converter \<Rightarrow> world \<Rightarrow> path \<Rightarrow> path \<Rightarrow> string \<Rightarrow> bool \<Rightarrow> world \<times> bool" where
  "convert_file self w tex_file output_dir folder_name use_symlinks =
     (case convert_file_body self w tex_file output_dir folder_name use_symlinks of
        (w', Inl e) \<Rightarrow> (log self w' (ErrorConverting (name tex_file) e) ERROR, False)
      | (w', Inr ok) \<Rightarrow> (w', ok))"




section \<open>Notions used in the statements\<close>

text \<open>
  A text of the shape \<open>YYYY-M-D\<close>: four digits, one or two digits, one or two digits.
  \<open>first_date filename pre y m d post\<close> says that \<open>filename\<close> is \<open>pre\<close>, the date
  \<open>y-m-d\<close> and \<open>post\<close>, that no text of this shape starts earlier in \<open>filename\<close>,
  and that the day has its second digit when \<open>post\<close> offers one.
\<close>

definition date_shaped :: "string \<Rightarrow> string \<Rightarrow> string \<Rightarrow> bool" where
  "date_shaped y m d =
     (length y = 4 \<and> list_all is_digit y \<and>
      length m \<in> {1, 2} \<and> list_all is_digit m \<and>
      length d \<in> {1, 2} \<and> list_all is_digit d)"

definition starts_with_date :: "string \<Rightarrow> bool" where
  "starts_with_date s =
     (\<exists>y m d post. s = y @ ''-'' @ m @ ''-'' @ d @ post \<and> date_shaped y m d)"

definition first_date :: "string \<Rightarrow> string \<Rightarrow> string \<Rightarrow> string \<Rightarrow> string \<Rightarrow> string \<Rightarrow> bool" where
  "first_date filename pre y m d post =
     (filename = pre @ y @ ''-'' @ m @ ''-'' @ d @ post \<and> date_shaped y m d \<and>
      (\<forall>i<length pre. \<not> starts_with_date (drop i filename)) \<and>
      (length d = 2 \<or> post = [] \<or> \<not> is_digit (hd post)))"

text \<open>
  \<open>first_occurrence marker pre s post\<close>: \<open>s\<close> is \<open>pre\<close>, the marker and \<open>post\<close>, and the
  marker occurs nowhere in \<open>s\<close> at an earlier place.
\<close>

definition first_occurrence :: "string \<Rightarrow> string \<Rightarrow> string \<Rightarrow> string \<Rightarrow> bool" where
  "first_occurrence marker pre s post =
     (s = pre @ marker @ post \<and>
      (\<forall>pre' post'. s = pre' @ marker @ post' \<longrightarrow> length pre \<le> length pre'))"

text \<open>
  The directories that the loop of the symlink mode visits from \<open>dir\<close> up to the root,
  and what it means that none of them holds an entry \<open>assets\<close>.
\<close>

definition ancestors :: "path \<Rightarrow> path list" where
  "ancestors dir = map (Path (is_absolute dir)) (rev (prefixes (tail dir)))"

definition no_assets_above :: "filesystem \<Rightarrow> path \<Rightarrow> bool" where
  "no_assets_above fs dir =
     list_all (\<lambda>d. \<not> path_exists fs (joinpath d ''assets'')) (ancestors dir)"

text \<open>
  What \<open>convert_file\<close> returns for each file of the list in turn, every file
  converted in the world that the files before it have left.
\<close>

fun outcomes :: "converter \<Rightarrow> path \<Rightarrow> string \<Rightarrow> bool \<Rightarrow> world \<Rightarrow> path list \<Rightarrow> bool list" where
  "outcomes self output_folder folder_name use_symlinks w [] = []"
| "outcomes self output_folder folder_name use_symlinks w (tex_file # rest) =
     (case convert_file self w tex_file output_folder folder_name use_symlinks of
        (w', ok) \<Rightarrow> ok # outcomes self output_folder folder_name use_symlinks w' rest)"

section \<open>Examples\<close>

text \<open>A world with no files, on 4 November 2026, for the examples.\<close>

definition empty_world :: world where
  "empty_world =
     \<lparr>files = [], now = \<lparr>year_of = 2026, month_of = 11, day_of = 4\<rparr>, printed = []\<rparr>"

text \<open>A converter whose template has no tag placeholder, for the examples.\<close>

definition plain_converter :: converter where
  "plain_converter =
     \<lparr>verbose = False, config = ConfigDict [(''author'', YStr ''Ann'')],
      template = ''% <AUTHOR>, <MONTH_NAME> <DAY>'' @ [CHR 0x0A] @ end_document\<rparr>"

text \<open>A world with one document that has no markers, for the examples.\<close>

definition notes_world :: world where
  "notes_world =
     \<lparr>files = [(path_of ''posts'', Dir),
               (path_of ''posts/2024-03-15.tex'', File ''Hello world.'')],
      now = \<lparr>year_of = 2026, month_of = 11, day_of = 4\<rparr>, printed = []\<rparr>"

text \<open>
  A world for the examples: a document that includes \<open>fig1.png\<close>, the picture in the
  directory \<open>figures\<close> beside the document, and no directory \<open>assets\<close> anywhere.
\<close>

definition figure_document :: string where
  "figure_document =
     begin_document @ ''Hello '' @ CHR 0x5C # ''includegraphics{fig1.png}'' @ end_document"

definition figures_world :: world where
  "figures_world =
     \<lparr>files = [(path_of ''/posts'', Dir),
               (path_of ''/posts/2024-03-15.tex'', File figure_document),
               (path_of ''/posts/figures'', Dir),
               (path_of ''/posts/figures/fig1.png'', File ''PNG'')],
      now = \<lparr>year_of = 2026, month_of = 11, day_of = 4\<rparr>, printed = []\<rparr>"



text \<open>
  Worlds for the examples whose only document has \<open>\end{document}\<close> before
  \<open>\begin{document}\<close>; in the second the file name holds the month 13.
\<close>

definition reversed_document :: string where
  "reversed_document = end_document @ '' Hello '' @ begin_document"

definition reversed_world :: world where
  "reversed_world =
     \<lparr>files = [(path_of ''/posts'', Dir),
               (path_of ''/posts/2024-03-15.tex'', File reversed_document),
               (path_of ''/out'', Dir)],
      now = \<lparr>year_of = 2026, month_of = 11, day_of = 4\<rparr>, printed = []\<rparr>"

definition reversed_month_13_world :: world where
  "reversed_month_13_world =
     \<lparr>files = [(path_of ''/posts'', Dir),
               (path_of ''/posts/2024-13-01.tex'', File reversed_document),
               (path_of ''/out'', Dir)],
      now = \<lparr>year_of = 2026, month_of = 11, day_of = 4\<rparr>, printed = []\<rparr>"

section \<open>Properties\<close>

subsection \<open>The date pattern\<close>

lemma rep_match_none_left [simp]: "rep_match cls 0 (Some 0) s k = k s"
  by (cases s) auto

lemma rep_match_sound:
  "rep_match cls lo hi s k = Some r \<Longrightarrow>
   \<exists>xs rest. s = xs @ rest \<and> list_all cls xs \<and> lo \<le> length xs \<and>
     (\<forall>h. hi = Some h \<longrightarrow> length xs \<le> h) \<and> k rest = Some r"
proof (induction s arbitrary: lo hi)
  case Nil
  then show ?case by (auto split: if_splits)
next
  case (Cons c cs)
  show ?case
  proof (cases "cls c \<and> hi \<noteq> Some 0")
    case True
    show ?thesis
    proof (cases "rep_match cls (lo - 1) (map_option (\<lambda>h. h - 1) hi) cs k")
      case None
      with True Cons.prems have "lo = 0" "k (c # cs) = Some r" by (auto split: if_splits)
      then show ?thesis by (intro exI[of _ "[]"] exI[of _ "c # cs"]) simp
    next
      case (Some r')
      with True Cons.prems have r: "r' = r" by simp
      from Cons.IH[OF Some[unfolded r]] obtain xs rest where
        x: "cs = xs @ rest" "list_all cls xs" "lo - 1 \<le> length xs"
           "\<forall>h. map_option (\<lambda>h. h - 1) hi = Some h \<longrightarrow> length xs \<le> h" "k rest = Some r"
        by blast
      have "\<forall>h. hi = Some h \<longrightarrow> length (c # xs) \<le> h"
        using x(4) True by (cases hi) auto
      with x True show ?thesis
        by (intro exI[of _ "c # xs"] exI[of _ rest]) auto
    qed
  next
    case False
    with Cons.prems have "lo = 0" "k (c # cs) = Some r" by (auto split: if_splits)
    then show ?thesis by (intro exI[of _ "[]"] exI[of _ "c # cs"]) simp
  qed
qed

lemma group_rep_sound:
  assumes "re_match (Grp (Rep cls lo (Some hi))) s g k = Some r"
  shows "\<exists>xs rest. s = xs @ rest \<and> list_all cls xs \<and> lo \<le> length xs \<and> length xs \<le> hi \<and>
           k rest (g @ [xs]) = Some r"
proof -
  from assms have "rep_match cls lo (Some hi) s (\<lambda>s'. k s' (g @ [take (length s - length s') s])) = Some r"
    by simp
  from rep_match_sound[OF this] obtain xs rest where
    "s = xs @ rest" "list_all cls xs" "lo \<le> length xs" "length xs \<le> hi"
    "k rest (g @ [take (length s - length rest) s]) = Some r" by blast
  then show ?thesis by (intro exI[of _ xs] exI[of _ rest]) simp
qed

lemma lit_sound:
  assumes "re_match (Lit l) s g k = Some r"
  shows "\<exists>rest. s = l @ rest \<and> k rest g = Some r"
  using assms by (auto simp: prefix_def split: if_splits)

lemma match_date_complete:
  assumes "match_at date_re s = Some r"
  shows "starts_with_date s"
proof -
  let ?k = "\<lambda>s' g. Some (s', g)"
  let ?G = "Grp (Rep is_digit 1 (Some 2))"
  from assms have "re_match (Grp (Rep is_digit 4 (Some 4))) s []
      (\<lambda>s1 g1. re_match (Lit ''-'') s1 g1
         (\<lambda>s2 g2. re_match ?G s2 g2
            (\<lambda>s3 g3. re_match (Lit ''-'') s3 g3
               (\<lambda>s4 g4. re_match ?G s4 g4 ?k)))) = Some r"
    unfolding match_at_def date_re_def by (simp only: re_match.simps(3))
  from group_rep_sound[OF this] obtain y r1 where
    y: "s = y @ r1" "list_all is_digit y" "4 \<le> length y" "length y \<le> 4"
    and k1: "re_match (Lit ''-'') r1 ([] @ [y])
         (\<lambda>s2 g2. re_match ?G s2 g2
            (\<lambda>s3 g3. re_match (Lit ''-'') s3 g3
               (\<lambda>s4 g4. re_match ?G s4 g4 ?k))) = Some r" by blast
  from lit_sound[OF k1] obtain r2 where r2: "r1 = ''-'' @ r2"
    and k2: "re_match ?G r2 ([] @ [y])
            (\<lambda>s3 g3. re_match (Lit ''-'') s3 g3
               (\<lambda>s4 g4. re_match ?G s4 g4 ?k)) = Some r" by blast
  from group_rep_sound[OF k2] obtain m r3 where
    m: "r2 = m @ r3" "list_all is_digit m" "1 \<le> length m" "length m \<le> 2"
    and k3: "re_match (Lit ''-'') r3 (([] @ [y]) @ [m])
               (\<lambda>s4 g4. re_match ?G s4 g4 ?k) = Some r" by blast
  from lit_sound[OF k3] obtain r4 where r4: "r3 = ''-'' @ r4"
    and k4: "re_match ?G r4 (([] @ [y]) @ [m]) ?k = Some r" by blast
  from group_rep_sound[OF k4] obtain d r5 where
    d: "r4 = d @ r5" "list_all is_digit d" "1 \<le> length d" "length d \<le> 2" by blast
  have "s = y @ ''-'' @ m @ ''-'' @ d @ r5" using y r2 m r4 d by simp
  moreover have "date_shaped y m d" using y m d by (auto simp: date_shaped_def)
  ultimately show ?thesis unfolding starts_with_date_def by blast
qed

lemma is_digit_dash [simp]: "\<not> is_digit CHR ''-''"
  by (simp add: is_digit_def)

lemma match_date_shaped:
  assumes "date_shaped y m d" "length d = 2 \<or> post = [] \<or> \<not> is_digit (hd post)"
  shows "match_at date_re (y @ ''-'' @ m @ ''-'' @ d @ post) = Some (post, [y, m, d])"
proof -
  from assms(1) obtain y1 y2 y3 y4 where y: "y = [y1, y2, y3, y4]"
    by (auto simp: date_shaped_def length_Suc_conv numeral_eq_Suc)
  from assms(1) have dy: "is_digit y1" "is_digit y2" "is_digit y3" "is_digit y4"
    by (auto simp: date_shaped_def y)
  from assms(1) consider m1 where "m = [m1]" "is_digit m1" | m1 m2 where "m = [m1, m2]" "is_digit m1" "is_digit m2"
    by (auto simp: date_shaped_def length_Suc_conv numeral_eq_Suc)
  note m_cases = this
  from assms consider d1 where "d = [d1]" "is_digit d1" "post = []"
    | d1 p ps where "d = [d1]" "is_digit d1" "post = p # ps" "\<not> is_digit p"
    | d1 d2 where "d = [d1, d2]" "is_digit d1" "is_digit d2"
    by (cases post) (auto simp: date_shaped_def length_Suc_conv numeral_eq_Suc)
  note d_cases = this
  show ?thesis
    by (rule m_cases; rule d_cases) (simp_all add: match_at_def date_re_def y dy)
qed

lemma re_search_first:
  assumes "\<forall>i<length pre. \<not> starts_with_date (drop i (pre @ x))"
    and "match_at date_re x = Some (rest, g)" and "x \<noteq> []"
  shows "re_search date_re (pre @ x) = Some g"
  using assms
proof (induction pre)
  case Nil
  then show ?case by (cases x) auto
next
  case (Cons p ps)
  from Cons.prems(1) have "\<not> starts_with_date (p # ps @ x)" by force
  then have none: "match_at date_re (p # ps @ x) = None"
    using match_date_complete by (cases "match_at date_re (p # ps @ x)") auto
  have "\<forall>i<length ps. \<not> starts_with_date (drop i (ps @ x))"
  proof (intro allI impI)
    fix i assume "i < length ps"
    then have "Suc i < length (p # ps)" by simp
    with Cons.prems(1) have "\<not> starts_with_date (drop (Suc i) ((p # ps) @ x))" by blast
    then show "\<not> starts_with_date (drop i (ps @ x))" by simp
  qed
  from Cons.IH[OF this Cons.prems(2,3)] none show ?case by simp
qed

lemma first_date_search:
  assumes "first_date filename pre y m d post"
  shows "re_search date_re filename = Some [y, m, d]"
proof -
  let ?x = "y @ ''-'' @ m @ ''-'' @ d @ post"
  from assms have f: "filename = pre @ ?x" and sh: "date_shaped y m d"
    and gr: "length d = 2 \<or> post = [] \<or> \<not> is_digit (hd post)"
    and lm: "\<forall>i<length pre. \<not> starts_with_date (drop i (pre @ ?x))"
    by (auto simp: first_date_def)
  from sh have "?x \<noteq> []" by (auto simp: date_shaped_def)
  from re_search_first[OF lm match_date_shaped[OF sh gr] this] show ?thesis by (simp add: f)
qed

lemma digit_value_nonneg: "is_digit c \<Longrightarrow> 0 \<le> digit_value c"
  by (auto simp: is_digit_def digit_value_def)

lemma foldl_digits_nonneg:
  "list_all is_digit s \<Longrightarrow> 0 \<le> acc \<Longrightarrow> 0 \<le> foldl (\<lambda>acc c. 10 * acc + digit_value c) acc s"
  by (induction s arbitrary: acc) (auto simp: digit_value_nonneg)

lemma py_int_digits:
  assumes "list_all is_digit s" "s \<noteq> []"
  shows "\<exists>v. py_int s = Inr v \<and> 0 \<le> v"
  using assms foldl_digits_nonneg[of s 0] by (simp add: py_int_def)

lemma py_int_nonneg: "py_int s = Inr v \<Longrightarrow> 0 \<le> v"
  using foldl_digits_nonneg[of s 0] by (auto simp: py_int_def split: if_splits)

lemma starts_with_date_digits:
  assumes "starts_with_date s"
  shows "4 \<le> length s \<and> list_all is_digit (take 4 s)"
  using assms by (auto simp: starts_with_date_def date_shaped_def)

subsection \<open>get_date_info\<close>

text \<open>
  Claim C3, as amended. When the name of the file without its suffix has \<open>y-m-d\<close> as
  its first date (the leftmost text of the shape \<open>YYYY-M-D\<close>, the day with both its
  digits when there are two), and the month \<open>m\<close> has a value of at most 12,
  \<open>get_date_info\<close> returns the year \<open>y\<close> as it is written and the values of \<open>m\<close> and
  \<open>d\<close> in decimal, whatever \<open>pre\<close> stands before the date and whatever \<open>post\<close> follows
  it. The month name is that of the month; for the value 0 it is December.
\<close>

theorem get_date_info_first_date:
  assumes "first_date (stem tex_file) pre y m d post"
    and "py_int m = Inr mv" and "py_int d = Inr dv" and "mv \<le> 12"
  shows "get_date_info w tex_file =
           Inr \<lparr>year = y, month = py_str mv, day = py_str dv,
                month_name = (if mv = 0 then ''December'' else month_names ! nat (mv - 1)),
                day_number = py_str dv\<rparr>"
proof -
  have s: "re_search date_re (stem tex_file) = Some [y, m, d]"
    by (rule first_date_search[OF assms(1)])
  have nn: "0 \<le> mv" by (rule py_int_nonneg[OF assms(2)])
  have "py_index month_names (mv - 1) =
          Inr (if mv = 0 then ''December'' else month_names ! nat (mv - 1))"
  proof (cases "mv = 0")
    case True
    then show ?thesis by (simp add: py_index_def month_names_def)
  next
    case False
    with nn assms(4) have "0 \<le> mv - 1" "mv - 1 < 12" by auto
    with False show ?thesis by (simp add: py_index_def month_names_def)
  qed
  then show ?thesis
    by (simp add: get_date_info_def s assms(2,3) then_do_def)
qed

text \<open>
  Claim C2, as amended. When the first date of the file name has a month whose value
  is above 12, \<open>get_date_info\<close> fails with \<open>IndexError\<close> at the lookup of the month
  name.
\<close>

theorem get_date_info_month_above_12:
  assumes "first_date (stem tex_file) pre y m d post"
    and "py_int m = Inr mv" and "12 < mv"
  shows "get_date_info w tex_file = Inl IndexError"
proof -
  have s: "re_search date_re (stem tex_file) = Some [y, m, d]"
    by (rule first_date_search[OF assms(1)])
  from assms(1) have "list_all is_digit d" "d \<noteq> []"
    by (auto simp: first_date_def date_shaped_def)
  then obtain dv where dv: "py_int d = Inr dv" using py_int_digits by blast
  have "py_index month_names (mv - 1) = Inl IndexError"
    using assms(3) by (simp add: py_index_def month_names_def)
  then show ?thesis
    by (simp add: get_date_info_def s assms(2) dv then_do_def)
qed

lemma stem_notes: "stem (path_of ''notes-2024-03-15.tex'') = ''notes-2024-03-15''"
  by (simp add: stem_def name_def path_of_def)

lemma first_date_notes: "first_date ''notes-2024-03-15'' ''notes-'' ''2024'' ''03'' ''15'' []"
proof -
  have "\<not> starts_with_date (drop i ''notes-2024-03-15'')" if "i < 6" for i
  proof -
    from that consider "i = 0" | "i = 1" | "i = 2" | "i = 3" | "i = 4" | "i = 5" by linarith
    then show ?thesis
      by cases (auto dest!: starts_with_date_digits simp: is_digit_def)
  qed
  then show ?thesis by (simp add: first_date_def date_shaped_def is_digit_def)
qed

theorem get_date_info_first_date_witness:
  "get_date_info empty_world (path_of ''notes-2024-03-15.tex'') =
     Inr \<lparr>year = ''2024'', month = ''3'', day = ''15'', month_name = ''March'', day_number = ''15''\<rparr>"
  using get_date_info_first_date [of "path_of ''notes-2024-03-15.tex''" "''notes-''" "''2024''" "''03''" "''15''" "[]" 3 15 empty_world]
  by (simp add: stem_notes first_date_notes py_int_def is_digit_def digit_value_def py_str_def
        str_nat.simps month_names_def)

text \<open>
  Against claim C2 as it was stated: the month 0 is outside 1 to 12, and the lookup
  \<open>month_names[-1]\<close> does not fail, it gives the last name of the list.
\<close>

theorem get_date_info_out_of_range_counterexample:
  "first_date (stem (path_of ''2024-0-15.tex'')) [] ''2024'' ''0'' ''15'' [] \<and>
   py_int ''0'' = Inr 0 \<and>
   get_date_info empty_world (path_of ''2024-0-15.tex'') =
     Inr \<lparr>year = ''2024'', month = ''0'', day = ''15'', month_name = ''December'', day_number = ''15''\<rparr>"
  by (simp add: stem_def name_def path_of_def first_date_def date_shaped_def is_digit_def
        py_int_def digit_value_def get_date_info_def then_do_def py_index_def month_names_def
        py_str_def str_nat.simps match_at_def date_re_def)

theorem get_date_info_month_above_12_witness:
  "get_date_info empty_world (path_of ''posts/2024-40-7.tex'') = Inl IndexError"
  using get_date_info_month_above_12 [of "path_of ''posts/2024-40-7.tex''" "[]" "''2024''" "''40''" "''7''" "[]" 40 empty_world]
  by (simp add: stem_def name_def path_of_def first_date_def date_shaped_def is_digit_def
        py_int_def digit_value_def)

text \<open>
  Against claim C3 as it was stated: the file name holds the text \<open>2024-13-01\<close> of the
  shape \<open>YYYY-M-D\<close>, and \<open>get_date_info\<close> returns nothing: it raises \<open>IndexError\<close>.
\<close>

theorem get_date_info_returns_counterexample:
  "first_date (stem (path_of ''2024-13-01.tex'')) [] ''2024'' ''13'' ''01'' [] \<and>
   get_date_info empty_world (path_of ''2024-13-01.tex'') = Inl IndexError"
  by (simp add: stem_def name_def path_of_def first_date_def date_shaped_def is_digit_def
        py_int_def digit_value_def get_date_info_def then_do_def py_index_def month_names_def
        match_at_def date_re_def)

subsection \<open>find, in and replace\<close>

lemma py_find_ge: "- 1 \<le> py_find s m"
  by (induction s) (auto simp: Let_def)

lemma first_occurrence_Cons:
  assumes "first_occurrence m (p # ps) s post"
  shows "\<not> prefix m s" and "first_occurrence m ps (tl s) post"
proof -
  from assms have s: "s = p # ps @ m @ post"
    and least: "\<And>pre' post'. s = pre' @ m @ post' \<Longrightarrow> Suc (length ps) \<le> length pre'"
    by (auto simp: first_occurrence_def)
  show "\<not> prefix m s"
  proof
    assume "prefix m s"
    then obtain post' where "s = [] @ m @ post'" by (auto simp: prefix_def)
    from least[OF this] show False by simp
  qed
  have "length ps \<le> length pre'" if "tl s = pre' @ m @ post'" for pre' post'
  proof -
    from that s have "s = (p # pre') @ m @ post'" by simp
    from least[OF this] show ?thesis by simp
  qed
  with s show "first_occurrence m ps (tl s) post" by (simp add: first_occurrence_def)
qed

lemma py_find_prefix: "prefix m s \<Longrightarrow> py_find s m = 0"
  by (cases s) auto

lemma py_find_first:
  "first_occurrence m pre s post \<Longrightarrow> py_find s m = int (length pre)"
proof (induction pre arbitrary: s)
  case Nil
  then have "prefix m s" by (simp add: first_occurrence_def)
  then show ?case by (simp add: py_find_prefix)
next
  case (Cons p ps)
  from first_occurrence_Cons[OF Cons.prems] Cons.IH[of "tl s"]
  have np: "\<not> prefix m s" and t: "py_find (tl s) m = int (length ps)" by auto
  from Cons.prems obtain cs where s: "s = p # cs" by (auto simp: first_occurrence_def)
  from np t show ?case unfolding s by (simp add: Let_def)
qed

lemma py_find_found:
  "py_find s m \<noteq> - 1 \<Longrightarrow>
   \<exists>pre post. first_occurrence m pre s post \<and> py_find s m = int (length pre)"
proof (induction s)
  case Nil
  then have "m = []" by (auto split: if_splits)
  then show ?case
    by (intro exI[of _ "[]"]) (simp add: first_occurrence_def)
next
  case (Cons c cs)
  show ?case
  proof (cases "prefix m (c # cs)")
    case True
    then obtain post where "c # cs = m @ post" by (auto simp: prefix_def)
    then have "first_occurrence m [] (c # cs) post" by (simp add: first_occurrence_def)
    moreover from True have "py_find (c # cs) m = int (length ([] :: string))"
      by (simp add: py_find_prefix)
    ultimately show ?thesis by blast
  next
    case False
    with Cons.prems have ne: "py_find cs m \<noteq> - 1" by (auto simp: Let_def split: if_splits)
    from Cons.IH[OF this] obtain pre post where
      fo: "first_occurrence m pre cs post" and i: "py_find cs m = int (length pre)" by blast
    have "length (c # pre) \<le> length pre'" if o: "c # cs = pre' @ m @ post'" for pre' post'
    proof (cases pre')
      case Nil
      with o False show ?thesis by (auto simp: prefix_def)
    next
      case (Cons a p3)
      with o have "cs = p3 @ m @ post'" by simp
      with fo have "length pre \<le> length p3" by (auto simp: first_occurrence_def)
      with Cons show ?thesis by simp
    qed
    moreover from fo have "c # cs = (c # pre) @ m @ post" by (simp add: first_occurrence_def)
    ultimately have "first_occurrence m (c # pre) (c # cs) post"
      unfolding first_occurrence_def by blast
    moreover from False i have "py_find (c # cs) m = int (length (c # pre))"
      by (simp add: Let_def)
    ultimately show ?thesis by blast
  qed
qed

lemma py_in_iff_sublist: "py_in m s \<longleftrightarrow> sublist m s"
proof
  assume "py_in m s"
  then have "py_find s m \<noteq> - 1" by (simp add: py_in_def)
  from py_find_found[OF this] show "sublist m s"
    by (auto simp: first_occurrence_def sublist_def)
next
  assume "sublist m s"
  then show "py_in m s"
  proof (induction s)
    case Nil
    then show ?case by (simp add: py_in_def)
  next
    case (Cons c cs)
    then show ?case
      using py_find_ge[of cs m] by (auto simp: py_in_def Let_def sublist_Cons_right)
  qed
qed

lemma replace_from_absent:
  "\<not> sublist old s \<Longrightarrow> replace_from 0 old new s = s"
  by (induction s) (auto simp: sublist_Cons_right)

lemma py_replace_absent:
  assumes "\<not> py_in old s"
  shows "py_replace s old new = s"
proof -
  from assms have n: "\<not> sublist old s" by (simp add: py_in_iff_sublist)
  then have "old \<noteq> []" by auto
  with n show ?thesis by (simp add: py_replace_def replace_from_absent)
qed

lemma tag_comment_holds_tags: "sublist ''<TAGS>'' ''%<TAGs>: <TAGS>''"
  by (rule suffix_imp_sublist) (simp add: suffix_def)

subsection \<open>inject_personal_info\<close>

text \<open>
  Claim C9. When the template, after the metadata placeholders have been replaced,
  does not contain \<open><TAGS>\<close>, the replacement of the tag comment line
  \<open>%<TAGs>: <TAGS>\<close> changes nothing, and \<open>inject_personal_info\<close> returns the template
  as the metadata replacements left it: the folder name is in it nowhere, unless the
  template or the metadata had it.
\<close>

theorem inject_personal_info_drops_tag:
  assumes "substitute_metadata self w templ tex_file = Inr result"
    and "\<not> py_in ''<TAGS>'' result"
  shows "py_replace result ''%<TAGs>: <TAGS>'' (''%<TAGs>: '' @ folder_name) = result
       \<and> inject_personal_info self w templ tex_file folder_name = Inr result"
proof -
  have "\<not> py_in ''%<TAGs>: <TAGS>'' result"
  proof
    assume "py_in ''%<TAGs>: <TAGS>'' result"
    then have "sublist ''%<TAGs>: <TAGS>'' result" by (simp add: py_in_iff_sublist)
    with tag_comment_holds_tags have "sublist ''<TAGS>'' result"
      by (rule sublist_order.order.trans)
    with assms(2) show False by (simp add: py_in_iff_sublist)
  qed
  then have "py_replace result ''%<TAGs>: <TAGS>'' (''%<TAGs>: '' @ folder_name) = result"
    by (rule py_replace_absent)
  with assms show ?thesis by (simp add: inject_personal_info_def then_do_def)
qed

theorem inject_personal_info_drops_tag_witness:
  "inject_personal_info plain_converter empty_world (template plain_converter)
     (path_of ''posts/2024-03-15.tex'') ''posts''
   = Inr (''% Ann, March 15'' @ [CHR 0x0A] @ end_document)"
  using inject_personal_info_drops_tag [of plain_converter empty_world "template plain_converter"
      "path_of ''posts/2024-03-15.tex''" "''% Ann, March 15'' @ [CHR 0x0A] @ end_document" "''posts''"]
  by (simp add: substitute_metadata_def then_do_def get_date_info_def stem_def name_def path_of_def
      match_at_def date_re_def is_digit_def py_int_def digit_value_def py_index_def
      month_names_def py_str_def str_nat.simps config_get_def plain_converter_def
      py_replace_def py_in_def end_document_def Let_def)

lemma first_occurrence_find_iff:
  "first_occurrence m pre s post \<longleftrightarrow> s = pre @ m @ post \<and> py_find s m = int (length pre)"
proof
  assume fo: "first_occurrence m pre s post"
  then have "s = pre @ m @ post" by (simp add: first_occurrence_def)
  with py_find_first[OF fo] show "s = pre @ m @ post \<and> py_find s m = int (length pre)"
    by blast
next
  assume a: "s = pre @ m @ post \<and> py_find s m = int (length pre)"
  then have "py_find s m = int (length pre)" by blast
  then have "py_find s m \<noteq> - 1" by linarith
  from py_find_found[OF this] obtain pre' post' where
    fo: "first_occurrence m pre' s post'" and "py_find s m = int (length pre')" by blast
  with a have l: "length pre' = length pre" by simp
  from fo a have "pre' @ m @ post' = pre @ m @ post" by (simp add: first_occurrence_def)
  with l have "pre' = pre" "post' = post" by auto
  with fo show "first_occurrence m pre s post" by simp
qed

lemma slice_at_first_occurrence:
  assumes "first_occurrence m pre s post"
  shows "py_slice_to s (py_find s m) = pre" and "py_slice_from s (py_find s m) = m @ post"
  using assms py_find_first[OF assms]
  by (simp_all add: py_slice_to_def py_slice_from_def slice_index_def first_occurrence_def)

subsection \<open>The insertion point\<close>

text \<open>
  Claim C6. When the template holds the directive \<open>\bibliographystyle\<close>, the content
  followed by two line feeds is put immediately before the first occurrence of the
  directive. When it does not hold the directive and holds \<open>\end{document}\<close>, the
  content followed by two line feeds is put immediately before the first occurrence of
  that marker.
\<close>

theorem splice_content_before_anchor:
  "(first_occurrence bibliographystyle pre templ post \<longrightarrow>
      splice_content templ content
        = pre @ content @ [CHR 0x0A, CHR 0x0A] @ bibliographystyle @ post) \<and>
   (\<not> py_in bibliographystyle templ \<and> first_occurrence end_document pre templ post \<longrightarrow>
      splice_content templ content
        = pre @ content @ [CHR 0x0A, CHR 0x0A] @ end_document @ post)"
proof (intro conjI impI)
  assume fo: "first_occurrence bibliographystyle pre templ post"
  then have "sublist bibliographystyle templ" by (auto simp: first_occurrence_def)
  then have "py_in bibliographystyle templ" by (simp add: py_in_iff_sublist)
  with slice_at_first_occurrence[OF fo]
  show "splice_content templ content
        = pre @ content @ [CHR 0x0A, CHR 0x0A] @ bibliographystyle @ post"
    by (simp add: splice_content_def)
next
  assume "\<not> py_in bibliographystyle templ \<and> first_occurrence end_document pre templ post"
  then have n: "\<not> py_in bibliographystyle templ"
    and fo: "first_occurrence end_document pre templ post" by auto
  from n slice_at_first_occurrence[OF fo]
  show "splice_content templ content
        = pre @ content @ [CHR 0x0A, CHR 0x0A] @ end_document @ post"
    by (simp add: splice_content_def)
qed

theorem splice_content_before_anchor_witness:
  "splice_content (''Title '' @ bibliographystyle @ ''{plain}'' @ end_document) ''Body''
     = ''Title '' @ ''Body'' @ [CHR 0x0A, CHR 0x0A] @ bibliographystyle @ ''{plain}'' @ end_document \<and>
   splice_content (''Title '' @ end_document @ ''%'') ''Body''
     = ''Title '' @ ''Body'' @ [CHR 0x0A, CHR 0x0A] @ end_document @ ''%''"
  using splice_content_before_anchor [of "''Title ''"
      "''Title '' @ bibliographystyle @ ''{plain}'' @ end_document" "''{plain}'' @ end_document" "''Body''"]
    splice_content_before_anchor [of "''Title ''" "''Title '' @ end_document @ ''%''" "''%''" "''Body''"]
  by (simp add: first_occurrence_find_iff py_in_def bibliographystyle_def end_document_def)

subsection \<open>Documents without markers\<close>

text \<open>
  Claim C7. When the text of the file lacks \<open>\begin{document}\<close> or lacks
  \<open>\end{document}\<close>, \<open>extract_content\<close> prints the warning and returns \<open>None\<close>,
  and \<open>convert_file\<close> returns \<open>False\<close> in a world that differs from the one before by
  that warning only: no file has been written.
\<close>

theorem convert_file_without_markers:
  assumes "read_text (files w) tex_file = Inr content"
    and "\<not> py_in begin_document content \<or> \<not> py_in end_document content"
  shows "extract_content self w tex_file
           = (w\<lparr>printed := printed w @ [(WARNING, NoDocumentEnvironment (name tex_file))]\<rparr>, None)
       \<and> convert_file self w tex_file output_dir folder_name use_symlinks
           = (w\<lparr>printed := printed w @ [(WARNING, NoDocumentEnvironment (name tex_file))]\<rparr>, False)"
proof -
  from assms(2) have "document_body content = None"
    by (auto simp: document_body_def py_in_def Let_def)
  with assms(1) have "extract_content self w tex_file
      = (w\<lparr>printed := printed w @ [(WARNING, NoDocumentEnvironment (name tex_file))]\<rparr>, None)"
    by (simp add: extract_content_def log_def)
  then show ?thesis
    by (simp add: convert_file_def convert_file_body_def)
qed

lemma resolve_plain: "(\<And>t. lookup fs p \<noteq> Some (Symlink t)) \<Longrightarrow> resolve n fs p = Some p"
  by (cases n; cases "lookup fs p") (auto split: node.splits)

theorem convert_file_without_markers_witness:
  "convert_file plain_converter notes_world (path_of ''posts/2024-03-15.tex'')
     (path_of ''out'') ''posts'' False
   = (notes_world\<lparr>printed := [(WARNING, NoDocumentEnvironment ''2024-03-15.tex'')]\<rparr>, False)"
  using convert_file_without_markers [of notes_world "path_of ''posts/2024-03-15.tex''"
      "''Hello world.''" plain_converter "path_of ''out''" "''posts''" False]
  by (simp add: read_text_def stat_def resolve_plain lookup_def notes_world_def path_of_def
      py_in_def begin_document_def name_def)

subsection \<open>Assets\<close>

lemma log_files [simp]: "files (log self w msg lvl) = files w"
  by (simp add: log_def)

lemma log_now [simp]: "now (log self w msg lvl) = now w"
  by (simp add: log_def)

lemma log_warning [simp]:
  "log self w msg WARNING = w\<lparr>printed := printed w @ [(WARNING, msg)]\<rparr>"
  by (simp add: log_def)

lemma find_asset_references_files [simp]:
  "files (fst (find_asset_references self w tex_file)) = files w"
  by (simp add: find_asset_references_def split: sum.splits)

lemma ancestors_self: "dir \<in> set (ancestors dir)"
  by (cases dir) (simp add: ancestors_def image_iff)

lemma ancestors_parent: "set (ancestors (parent dir)) \<subseteq> set (ancestors dir)"
proof (cases "tail dir = []")
  case True
  then show ?thesis by (simp add: parent_def)
next
  case False
  have "prefix ys (tail dir)" if "prefix ys (butlast (tail dir))" for ys
    using that prefixeq_butlast prefix_order.trans by blast
  with False show ?thesis by (auto simp: parent_def ancestors_def)
qed

lemma find_assets_root_ancestor: "find_assets_root fs dir \<in> set (ancestors dir)"
proof (induction fs dir rule: find_assets_root.induct)
  case (1 fs root_dir)
  show ?case
  proof (cases "parent root_dir \<noteq> root_dir \<and> \<not> path_exists fs (joinpath root_dir ''assets'')")
    case True
    with 1 have "find_assets_root fs (parent root_dir) \<in> set (ancestors (parent root_dir))"
      by simp
    with ancestors_parent have "find_assets_root fs (parent root_dir) \<in> set (ancestors root_dir)"
      by blast
    with True show ?thesis by (subst find_assets_root.simps) simp
  next
    case False
    then have "find_assets_root fs root_dir = root_dir"
      by (subst find_assets_root.simps) auto
    then show ?thesis by (simp add: ancestors_self)
  qed
qed

lemma link_assets_without_assets_dir:
  assumes "no_assets_above (files w) (parent tex_file)"
  shows "link_assets self w tex_file output_dir
           = (w\<lparr>printed := printed w @ [(WARNING, NoAssetsDirectory)]\<rparr>, Inr [])"
proof -
  from assms find_assets_root_ancestor[of "files w" "parent tex_file"]
  have "\<not> path_exists (files w) (joinpath (find_assets_root (files w) (parent tex_file)) ''assets'')"
    by (auto simp: no_assets_above_def list_all_iff)
  then show ?thesis by (simp add: link_assets_def Let_def)
qed

text \<open>
  Claim C1, as amended. In the symlink mode, when none of the directories from that of
  the document up to the root holds an entry \<open>assets\<close>, \<open>copy_assets\<close> copies nothing
  and makes no link: it returns the empty list and leaves the file system as it was,
  and when the document has references the last line it prints is the warning that no
  assets directory was found.
\<close>

theorem copy_assets_symlink_without_assets_dir:
  assumes "no_assets_above (files w) (parent tex_file)"
  shows "snd (copy_assets self w tex_file output_dir True) = Inr []
       \<and> files (fst (copy_assets self w tex_file output_dir True)) = files w
       \<and> (snd (find_asset_references self w tex_file) \<noteq> [] \<longrightarrow>
            last (printed (fst (copy_assets self w tex_file output_dir True)))
              = (WARNING, NoAssetsDirectory))"
proof -
  obtain w1 asset_refs where f: "find_asset_references self w tex_file = (w1, asset_refs)"
    by (cases "find_asset_references self w tex_file")
  then have w1: "files w1 = files w" using find_asset_references_files[of self w tex_file] by simp
  show ?thesis
  proof (cases "asset_refs = []")
    case True
    with f w1 show ?thesis by (simp add: copy_assets_def)
  next
    case False
    let ?w2 = "log self w1 (FoundAssetReferences (length asset_refs)) INFO"
    from assms w1 have "no_assets_above (files ?w2) (parent tex_file)" by simp
    from link_assets_without_assets_dir[OF this]
    have "link_assets self ?w2 tex_file output_dir
            = (?w2\<lparr>printed := printed ?w2 @ [(WARNING, NoAssetsDirectory)]\<rparr>, Inr [])" .
    with f False w1 show ?thesis by (simp add: copy_assets_def Let_def)
  qed
qed

lemma figures_world_no_assets:
  "no_assets_above (files figures_world) (parent (path_of ''/posts/2024-03-15.tex''))"
  by code_simp

lemma figures_world_references:
  "find_asset_references plain_converter figures_world (path_of ''/posts/2024-03-15.tex'')
     = (figures_world, [''fig1.png''])"
  by code_simp

theorem copy_assets_symlink_without_assets_dir_witness:
  "snd (copy_assets plain_converter figures_world (path_of ''/posts/2024-03-15.tex'')
          (path_of ''/out'') True) = Inr []
   \<and> files (fst (copy_assets plain_converter figures_world (path_of ''/posts/2024-03-15.tex'')
          (path_of ''/out'') True)) = files figures_world
   \<and> last (printed (fst (copy_assets plain_converter figures_world
          (path_of ''/posts/2024-03-15.tex'') (path_of ''/out'') True)))
       = (WARNING, NoAssetsDirectory)"
  using copy_assets_symlink_without_assets_dir [OF figures_world_no_assets,
      of plain_converter "path_of ''/out''"]
  by (simp add: figures_world_references)

text \<open>
  Against claim C1 as it was stated: no directory \<open>assets\<close> is found above the
  document, its reference \<open>fig1.png\<close> resolves, and the symlink mode copies nothing,
  where the copy mode copies the picture to the output directory.
\<close>

theorem copy_assets_no_fallback_counterexample:
  "no_assets_above (files figures_world) (parent (path_of ''/posts/2024-03-15.tex'')) \<and>
   resolve_asset_path (files figures_world) ''fig1.png'' (path_of ''/posts/2024-03-15.tex'')
     = Some (path_of ''/posts/figures/fig1.png'') \<and>
   copy_assets plain_converter figures_world (path_of ''/posts/2024-03-15.tex'') (path_of ''/out'') True
     = (figures_world\<lparr>printed := [(WARNING, NoAssetsDirectory)]\<rparr>, Inr []) \<and>
   snd (copy_assets plain_converter figures_world (path_of ''/posts/2024-03-15.tex'')
          (path_of ''/out'') False)
     = Inr [path_of ''/out/fig1.png'']"
  by code_simp




subsection \<open>convert_folder\<close>

lemma length_outcomes [simp]:
  "length (outcomes self out folder_name use_symlinks w tex_files) = length tex_files"
  by (induction tex_files arbitrary: w) (auto split: prod.splits)










subsection \<open>Markers in the wrong order\<close>

lemma get_date_info_log [simp]: "get_date_info (log self w msg lvl) tex_file = get_date_info w tex_file"
  unfolding get_date_info_def log_now by (rule refl)

lemma inject_personal_info_log [simp]:
  "inject_personal_info self (log self' w msg lvl) templ tex_file folder_name
     = inject_personal_info self w templ tex_file folder_name"
  by (simp add: inject_personal_info_def substitute_metadata_def)

lemma inject_personal_info_date:
  assumes "inject_personal_info self w templ tex_file folder_name = Inr t"
  shows "\<exists>info. get_date_info w tex_file = Inr info"
  using assms
  by (cases "get_date_info w tex_file")
     (auto simp: inject_personal_info_def substitute_metadata_def then_do_def)

lemma py_slice_reversed:
  assumes "0 \<le> b" "b \<le> a"
  shows "py_slice s a b = []"
  using assms by (auto simp: py_slice_def slice_index_def)

lemma document_body_reversed:
  assumes "py_find content end_document \<noteq> - 1"
    and "py_find content end_document < py_find content begin_document"
  shows "document_body content = Some []"
proof -
  from assms(1) py_find_ge[of content end_document] have e: "0 \<le> py_find content end_document"
    by linarith
  with assms(2) have "py_slice content (py_find content begin_document + int (length begin_document))
      (py_find content end_document) = []"
    by (intro py_slice_reversed) auto
  then have "between_markers content = []"
    by (simp add: between_markers_def py_strip_def)
  moreover from e assms(2) have "py_find content begin_document \<noteq> - 1" by linarith
  ultimately show ?thesis
    using assms(1) by (simp add: document_body_def re_sub_empty_def)
qed

text \<open>
  Claim C10, as amended. When \<open>\end{document}\<close> occurs in the text of the file before
  \<open>\begin{document}\<close>, \<open>extract_content\<close> does not fail: it returns the empty string.
  \<open>convert_file\<close> then goes on as for a document with an empty body: when the
  template is filled in, the output file is written and the assets are handled without
  an exception, it returns \<open>True\<close>, and what it has written to the output file is the
  template with two line feeds at the insertion point.
\<close>

theorem convert_file_markers_reversed:
  assumes "read_text (files w) tex_file = Inr content"
    and "py_find content end_document \<noteq> - 1"
    and "py_find content end_document < py_find content begin_document"
  shows "extract_content self w tex_file
           = (log self w (ExtractedContent (name tex_file)) INFO, Some [])
       \<and> (inject_personal_info self w (template self) tex_file folder_name = Inr templ \<and>
          write_text (files w) (joinpath output_dir (name tex_file)) (splice_content templ [])
            = Inr fs2 \<and>
          copy_assets self
            (log self ((log self w (ExtractedContent (name tex_file)) INFO)\<lparr>files := fs2\<rparr>)
               (if use_symlinks then CreatingSymlinks (name tex_file)
                else CopyingAssets (name tex_file)) INFO)
            tex_file output_dir use_symlinks = (w3, Inr copied_files)
          \<longrightarrow> convert_file self w tex_file output_dir folder_name use_symlinks
                = (log self w3 (Converted (name tex_file)) INFO, True))"
proof (intro conjI impI)
  show x: "extract_content self w tex_file
           = (log self w (ExtractedContent (name tex_file)) INFO, Some [])"
    using assms(1) document_body_reversed[OF assms(2,3)] by (simp add: extract_content_def)
  assume a: "inject_personal_info self w (template self) tex_file folder_name = Inr templ \<and>
          write_text (files w) (joinpath output_dir (name tex_file)) (splice_content templ [])
            = Inr fs2 \<and>
          copy_assets self
            (log self ((log self w (ExtractedContent (name tex_file)) INFO)\<lparr>files := fs2\<rparr>)
               (if use_symlinks then CreatingSymlinks (name tex_file)
                else CopyingAssets (name tex_file)) INFO)
            tex_file output_dir use_symlinks = (w3, Inr copied_files)"
  then obtain info where "get_date_info w tex_file = Inr info"
    using inject_personal_info_date by blast
  with a x show "convert_file self w tex_file output_dir folder_name use_symlinks
                = (log self w3 (Converted (name tex_file)) INFO, True)"
    by (simp add: convert_file_def convert_file_body_def Let_def)
qed

lemma reversed_world_read:
  "read_text (files reversed_world) (path_of ''/posts/2024-03-15.tex'') = Inr reversed_document"
  by code_simp

lemma reversed_document_markers:
  "py_find reversed_document end_document \<noteq> - 1 \<and>
   py_find reversed_document end_document < py_find reversed_document begin_document"
  by code_simp

lemma reversed_world_steps:
  "inject_personal_info plain_converter reversed_world (template plain_converter)
     (path_of ''/posts/2024-03-15.tex'') ''posts''
     = Inr (''% Ann, March 15'' @ [CHR 0x0A] @ end_document) \<and>
   write_text (files reversed_world) (joinpath (path_of ''/out'') (name (path_of ''/posts/2024-03-15.tex'')))
     (splice_content (''% Ann, March 15'' @ [CHR 0x0A] @ end_document) [])
     = Inr (files reversed_world @ [(path_of ''/out/2024-03-15.tex'',
               File (''% Ann, March 15'' @ [CHR 0x0A, CHR 0x0A, CHR 0x0A] @ end_document))]) \<and>
   copy_assets plain_converter
     (log plain_converter
        ((log plain_converter reversed_world
            (ExtractedContent (name (path_of ''/posts/2024-03-15.tex''))) INFO)
         \<lparr>files := files reversed_world @ [(path_of ''/out/2024-03-15.tex'',
               File (''% Ann, March 15'' @ [CHR 0x0A, CHR 0x0A, CHR 0x0A] @ end_document))]\<rparr>)
        (if False then CreatingSymlinks (name (path_of ''/posts/2024-03-15.tex''))
         else CopyingAssets (name (path_of ''/posts/2024-03-15.tex''))) INFO)
     (path_of ''/posts/2024-03-15.tex'') (path_of ''/out'') False
     = (reversed_world\<lparr>files := files reversed_world @ [(path_of ''/out/2024-03-15.tex'',
               File (''% Ann, March 15'' @ [CHR 0x0A, CHR 0x0A, CHR 0x0A] @ end_document))]\<rparr>, Inr [])"
  by code_simp

theorem convert_file_markers_reversed_witness:
  "extract_content plain_converter reversed_world (path_of ''/posts/2024-03-15.tex'')
     = (log plain_converter reversed_world
          (ExtractedContent (name (path_of ''/posts/2024-03-15.tex''))) INFO, Some [])
   \<and> convert_file plain_converter reversed_world (path_of ''/posts/2024-03-15.tex'')
       (path_of ''/out'') ''posts'' False
     = (log plain_converter
          (reversed_world\<lparr>files := files reversed_world @ [(path_of ''/out/2024-03-15.tex'',
               File (''% Ann, March 15'' @ [CHR 0x0A, CHR 0x0A, CHR 0x0A] @ end_document))]\<rparr>)
          (Converted (name (path_of ''/posts/2024-03-15.tex''))) INFO, True)"
  using convert_file_markers_reversed [OF reversed_world_read
      reversed_document_markers [THEN conjunct1] reversed_document_markers [THEN conjunct2],
      of plain_converter]
    reversed_world_steps
  by blast

text \<open>
  Against claim C10 as it was stated: \<open>\end{document}\<close> stands before
  \<open>\begin{document}\<close>, the content is extracted, and \<open>convert_file\<close> writes no output
  file and returns \<open>False\<close>, because the month 13 of the file name has no name.
\<close>

theorem convert_file_markers_reversed_counterexample:
  "py_find reversed_document end_document < py_find reversed_document begin_document \<and>
   extract_content plain_converter reversed_month_13_world (path_of ''/posts/2024-13-01.tex'')
     = (reversed_month_13_world, Some []) \<and>
   convert_file plain_converter reversed_month_13_world (path_of ''/posts/2024-13-01.tex'')
     (path_of ''/out'') ''posts'' False
     = (reversed_month_13_world\<lparr>printed := [(ERROR, ErrorConverting ''2024-13-01.tex'' IndexError)]\<rparr>,
        False)"
  by code_simp

subsection \<open>Extracting twice\<close>



















end
